theory Spec2Isabelle
  imports Complex_Main
begin

section \<open>Data model of the back office (src/app.py)\<close>

text \<open>
  The application keeps four MongoDB collections that the order logic touches:
  \<open>productos\<close>, \<open>pedidos\<close>, \<open>detalle_pedido\<close> and \<open>auditoria\<close>.
  Object ids are modelled as natural numbers. Products are looked up, updated and deleted
  by id, so that collection is a map. Orders, order lines and audit records are only ever
  inserted (no route deletes them), so these collections are lists in insertion order; the
  id that \<open>insert_one\<close> gives a new order is its position in \<open>pedidos\<close>.

  Prices are Python floats in the source; they are modelled as exact reals, so rounding
  and the non-numbers of IEEE arithmetic are outside this development. Text is modelled
  on ASCII characters: \<open>str.strip\<close> and \<open>str.upper\<close> below are the restriction
  of the Python methods to ASCII text. The image fields of a product play no part in the
  order logic and are left out.
\<close>

type_synonym oid = nat

record producto =
  nombre :: string
  categoria :: string
  precio :: real
  stock :: int
  activo :: bool

record pedido =
  id_cliente :: oid
  fecha :: nat
  total_pedido :: real
  estado :: "string option"
  metodo_pago :: string
  creado_por :: string

text \<open>
  The dictionaries built by the validation loop of \<open>pedidos_crear\<close> (\<open>linea\<close>), and the
  same dictionary once \<open>d["id_pedido"] = id_pedido\<close> has been added (\<open>detalle\<close>).
\<close>

record linea =
  id_producto :: oid
  nombre_producto :: string
  cantidad :: int
  precio_unit :: real
  subtotal :: real

record detalle = linea +
  id_pedido :: oid

record registro_auditoria =
  entidad :: string
  entidad_id :: oid
  accion :: string
  antes :: string
  despues :: string
  usuario_app :: string
  fecha_auditoria :: nat

record db =
  productos :: "oid \<rightharpoonup> producto"
  pedidos :: "pedido list"
  detalle_pedido :: "detalle list"
  auditoria :: "registro_auditoria list"

section \<open>Database writes\<close>

text \<open>
  Each call of the driver that changes the database is one \<open>escritura\<close>. A route is
  modelled by the list of writes it issues, in program order, and \<open>ejecutar\<close> runs
  them one after the other. \<open>update_one\<close> on an id that matches no document changes
  nothing.
\<close>

datatype escritura =
    PedidosInsertOne pedido
  | DetalleInsertOne detalle
  | ProductosIncStock oid int
  | PedidosSetEstado oid string
  | AuditoriaInsertOne registro_auditoria

fun aplicar :: "db \<Rightarrow> escritura \<Rightarrow> db" where
  "aplicar d (PedidosInsertOne p) = d\<lparr>pedidos := pedidos d @ [p]\<rparr>"
| "aplicar d (DetalleInsertOne l) = d\<lparr>detalle_pedido := detalle_pedido d @ [l]\<rparr>"
| "aplicar d (ProductosIncStock k n) =
     (case productos d k of
        None \<Rightarrow> d
      | Some p \<Rightarrow> d\<lparr>productos := (productos d)(k \<mapsto> p\<lparr>stock := stock p + n\<rparr>)\<rparr>)"
| "aplicar d (PedidosSetEstado k e) =
     (if k < length (pedidos d)
      then d\<lparr>pedidos := (pedidos d)[k := (pedidos d ! k)\<lparr>estado := Some e\<rparr>]\<rparr>
      else d)"
| "aplicar d (AuditoriaInsertOne a) = d\<lparr>auditoria := auditoria d @ [a]\<rparr>"

definition ejecutar :: "db \<Rightarrow> escritura list \<Rightarrow> db" where
  "ejecutar d ws = foldl aplicar d ws"

definition find_pedido :: "db \<Rightarrow> oid \<Rightarrow> pedido option" where
  "find_pedido d k = (if k < length (pedidos d) then Some (pedidos d ! k) else None)"

definition find_detalles :: "db \<Rightarrow> oid \<Rightarrow> detalle list" where
  "find_detalles d k = filter (\<lambda>dt. id_pedido dt = k) (detalle_pedido d)"

section \<open>Text helpers\<close>

text \<open>
  \<open>x or default\<close> on a form or document field: \<open>None\<close> (field missing) and the empty
  string are both falsy.
\<close>

definition py_or :: "string option \<Rightarrow> string \<Rightarrow> string" where
  "py_or x dflt = (case x of None \<Rightarrow> dflt | Some s \<Rightarrow> if s = [] then dflt else s)"

definition es_espacio :: "char \<Rightarrow> bool" where
  "es_espacio c =
     (c \<in> {CHR 0x09, CHR 0x0A, CHR 0x0B, CHR 0x0C, CHR 0x0D,
            CHR 0x1C, CHR 0x1D, CHR 0x1E, CHR 0x1F, CHR '' ''})"

definition strip :: "string \<Rightarrow> string" where
  "strip s = rev (dropWhile es_espacio (rev (dropWhile es_espacio s)))"

definition minusculas :: string where
  "minusculas = ''abcdefghijklmnopqrstuvwxyz''"

definition mayusculas :: string where
  "mayusculas = ''ABCDEFGHIJKLMNOPQRSTUVWXYZ''"

definition upper_char :: "char \<Rightarrow> char" where
  "upper_char c = (case map_of (zip minusculas mayusculas) c of None \<Rightarrow> c | Some u \<Rightarrow> u)"

definition upper :: "string \<Rightarrow> string" where
  "upper s = map upper_char s"

section \<open>Responses\<close>

text \<open>The flash message a route ends with, one constructor per message of the source.\<close>

datatype respuesta =
    FaltanDatos
  | SinItemsValidos
  | ProductoNoEncontrado
  | StockInsuficiente string int
  | PedidoCreado oid
  | EstadoInvalido
  | PedidoNoEncontrado
  | TransicionRechazada string string
  | EstadoActualizado string string
  | ErrorExcepcion

section \<open>Order creation: \<open>pedidos_crear\<close>\<close>

text \<open>
  A form field holding an object id: missing or empty (\<open>Ausente\<close>), present but refused
  by \<open>ObjectId(...)\<close> (\<open>Malformado\<close>), or a well-formed id.
\<close>

datatype campo_id = Ausente | Malformado | Valido oid

text \<open>
  The form of \<open>POST /u/pedidos\<close>. \<open>f_ids\<close> and \<open>f_cants\<close> are the lists the two
  \<open>getlist(...) or getlist(...)\<close> expressions give. An entry of \<open>f_ids\<close> is \<open>None\<close> when
  \<open>ObjectId(pid)\<close> raises, an entry of \<open>f_cants\<close> is \<open>None\<close> when \<open>int(cant)\<close>
  raises.
\<close>

record form_pedido =
  f_id_cliente :: campo_id
  f_ids :: "oid option list"
  f_cants :: "int option list"
  f_metodo_pago :: "string option"

text \<open>
  The loop "Normaliza pares producto-cantidad": a pair is kept when its quantity parses
  to a positive integer and its product id is well formed; any other pair is skipped.
\<close>

fun normalizar_items :: "(oid option \<times> int option) list \<Rightarrow> (oid \<times> int) list" where
  "normalizar_items [] = []"
| "normalizar_items ((pid, cant) # resto) =
     (case cant of
        None \<Rightarrow> normalizar_items resto
      | Some q \<Rightarrow>
          if q > 0
          then (case pid of
                  None \<Rightarrow> normalizar_items resto
                | Some k \<Rightarrow> (k, q) # normalizar_items resto)
          else normalizar_items resto)"

text \<open>
  The loop "Validar stock y calcular total", with its two accumulators \<open>total\<close> and
  \<open>detalles\<close>. It reads the products and writes nothing.
\<close>

fun validar :: "(oid \<rightharpoonup> producto) \<Rightarrow> (oid \<times> int) list \<Rightarrow> real \<times> linea list
                  \<Rightarrow> respuesta + real \<times> linea list" where
  "validar ps [] acc = Inr acc"
| "validar ps ((pid, q) # items) (tot, dets) =
     (case ps pid of
        None \<Rightarrow> Inl ProductoNoEncontrado
      | Some pr \<Rightarrow>
          if \<not> activo pr then Inl ProductoNoEncontrado
          else if stock pr < q then Inl (StockInsuficiente (nombre pr) (stock pr))
          else let sub = precio pr * of_int q in
            validar ps items
              (tot + sub,
               dets @ [\<lparr>id_producto = pid, nombre_producto = nombre pr, cantidad = q,
                        precio_unit = precio pr, subtotal = sub\<rparr>]))"

definition con_id_pedido :: "oid \<Rightarrow> linea \<Rightarrow> detalle" where
  "con_id_pedido k l =
     \<lparr>id_producto = id_producto l, nombre_producto = nombre_producto l,
      cantidad = cantidad l, precio_unit = precio_unit l, subtotal = subtotal l,
      id_pedido = k\<rparr>"

text \<open>The loop "Insertar detalle + descontar stock".\<close>

fun insertar_detalles :: "oid \<Rightarrow> linea list \<Rightarrow> escritura list" where
  "insertar_detalles k [] = []"
| "insertar_detalles k (l # ls) =
     DetalleInsertOne (con_id_pedido k l) # ProductosIncStock (id_producto l) (- cantidad l)
       # insertar_detalles k ls"

definition pedidos_crear_ops :: "db \<Rightarrow> string \<Rightarrow> nat \<Rightarrow> form_pedido
                                   \<Rightarrow> respuesta \<times> escritura list" where
  "pedidos_crear_ops d usuario ahora f =
     (if f_id_cliente f = Ausente \<or> f_ids f = [] \<or> f_cants f = [] then (FaltanDatos, [])
      else
        let items = normalizar_items (zip (f_ids f) (f_cants f)) in
        if items = [] then (SinItemsValidos, [])
        else
          case validar (productos d) items (0, []) of
            Inl r \<Rightarrow> (r, [])
          | Inr (tot, dets) \<Rightarrow>
              (case f_id_cliente f of
                 Valido cli \<Rightarrow>
                   let k = length (pedidos d) in
                   (PedidoCreado k,
                    PedidosInsertOne
                      \<lparr>id_cliente = cli, fecha = ahora, total_pedido = tot,
                       estado = Some ''CREADO'',
                       metodo_pago = (case f_metodo_pago f of None \<Rightarrow> ''EFECTIVO'' | Some m \<Rightarrow> m),
                       creado_por = usuario\<rparr>
                      # insertar_detalles k dets)
               | _ \<Rightarrow> (ErrorExcepcion, [])))"

definition pedidos_crear :: "db \<Rightarrow> string \<Rightarrow> nat \<Rightarrow> form_pedido \<Rightarrow> respuesta \<times> db" where
  "pedidos_crear d usuario ahora f =
     (let (r, ws) = pedidos_crear_ops d usuario ahora f in (r, ejecutar d ws))"

section \<open>Status change: \<open>cambiar_estado_pedido\<close>\<close>

definition estados_validos :: "string list" where
  "estados_validos = [''CREADO'', ''PAGADO'', ''ENVIADO'', ''CANCELADO'']"

definition transiciones :: "(string \<times> string list) list" where
  "transiciones =
     [(''CREADO'', [''PAGADO'', ''ENVIADO'', ''CANCELADO'']),
      (''PAGADO'', [''ENVIADO'', ''CANCELADO'']),
      (''ENVIADO'', [''PAGADO'']),
      (''CANCELADO'', [])]"

text \<open>\<open>transiciones.get(estado_actual, set())\<close>\<close>

definition transiciones_get :: "string \<Rightarrow> string list" where
  "transiciones_get e = (case map_of transiciones e of None \<Rightarrow> [] | Some s \<Rightarrow> s)"

definition restock :: "detalle list \<Rightarrow> escritura list" where
  "restock dets = map (\<lambda>dt. ProductosIncStock (id_producto dt) (cantidad dt)) dets"

text \<open>
  \<open>url_id\<close> is the \<open>id_pedido\<close> of the URL, \<open>None\<close> when \<open>ObjectId(id_pedido)\<close>
  raises; \<open>f_estado\<close> is the form field \<open>estado\<close>.
\<close>

definition cambiar_estado_pedido_ops :: "db \<Rightarrow> string \<Rightarrow> nat \<Rightarrow> oid option \<Rightarrow> string option
                                           \<Rightarrow> respuesta \<times> escritura list" where
  "cambiar_estado_pedido_ops d usuario ahora url_id f_estado =
     (let nuevo = upper (strip (py_or f_estado [])) in
      if nuevo \<notin> set estados_validos then (EstadoInvalido, [])
      else
        case url_id of
          None \<Rightarrow> (ErrorExcepcion, [])
        | Some k \<Rightarrow>
            (case find_pedido d k of
               None \<Rightarrow> (PedidoNoEncontrado, [])
             | Some ped \<Rightarrow>
                 let estado_actual = upper (strip (py_or (estado ped) ''CREADO'')) in
                 if nuevo \<notin> set (transiciones_get estado_actual)
                 then (TransicionRechazada estado_actual nuevo, [])
                 else
                   (EstadoActualizado estado_actual nuevo,
                    (if nuevo = ''CANCELADO'' \<and> estado_actual \<noteq> ''CANCELADO''
                     then restock (find_detalles d k) else [])
                    @ [PedidosSetEstado k nuevo,
                       AuditoriaInsertOne
                         \<lparr>entidad = ''pedido'', entidad_id = k, accion = ''CAMBIAR_ESTADO'',
                          antes = estado_actual, despues = nuevo,
                          usuario_app = usuario, fecha_auditoria = ahora\<rparr>])))"

definition cambiar_estado_pedido :: "db \<Rightarrow> string \<Rightarrow> nat \<Rightarrow> oid option \<Rightarrow> string option
                                       \<Rightarrow> respuesta \<times> db" where
  "cambiar_estado_pedido d usuario ahora url_id f_estado =
     (let (r, ws) = cambiar_estado_pedido_ops d usuario ahora url_id f_estado
      in (r, ejecutar d ws))"

text \<open>
  The two normalised statuses the route compares: \<open>estado_actual\<close> (line 727) and
  \<open>nuevo\<close> (line 717).
\<close>

definition estado_actual_de :: "pedido \<Rightarrow> string" where
  "estado_actual_de ped = upper (strip (py_or (estado ped) ''CREADO''))"

definition nuevo_de :: "string option \<Rightarrow> string" where
  "nuevo_de f = upper (strip (py_or f []))"

text \<open>A run of status-change requests (acting user, time, form field) on one order.\<close>

fun cambiar_estado_repetido :: "db \<Rightarrow> oid \<Rightarrow> (string \<times> nat \<times> string option) list \<Rightarrow> db" where
  "cambiar_estado_repetido d k [] = d"
| "cambiar_estado_repetido d k ((u, t, f) # rs) =
     cambiar_estado_repetido (snd (cambiar_estado_pedido d u t (Some k) f)) k rs"

section \<open>The vocabulary of the specification\<close>

text \<open>
  The specification names the four states in English; the source stores the Spanish
  literals. The transition table is written here from the words of the specification,
  to be compared with the dictionary \<open>transiciones\<close> of the source.
\<close>

definition CREATED :: string where "CREATED = ''CREADO''"
definition PAID :: string where "PAID = ''PAGADO''"
definition SHIPPED :: string where "SHIPPED = ''ENVIADO''"
definition CANCELLED :: string where "CANCELLED = ''CANCELADO''"

definition tabla_spec :: "(string \<times> string) set" where
  "tabla_spec =
     {(CREATED, PAID), (CREATED, SHIPPED), (CREATED, CANCELLED),
      (PAID, SHIPPED), (PAID, CANCELLED),
      (SHIPPED, PAID)}"

text \<open>A request is accepted when the route ends with "Estado actualizado de ... a ...".\<close>

fun aceptada :: "respuesta \<Rightarrow> bool" where
  "aceptada (EstadoActualizado a n) = True"
| "aceptada r = False"

text \<open>The quantity an order's lines hold of product \<open>p\<close>.\<close>

definition cantidad_de :: "oid \<Rightarrow> detalle list \<Rightarrow> int" where
  "cantidad_de p dets = sum_list (map cantidad (filter (\<lambda>dt. id_producto dt = p) dets))"

definition sumar_stock :: "int \<Rightarrow> producto \<Rightarrow> producto" where
  "sumar_stock n p = p\<lparr>stock := stock p + n\<rparr>"

definition registro :: "oid \<Rightarrow> string \<Rightarrow> string \<Rightarrow> string \<Rightarrow> nat \<Rightarrow> registro_auditoria" where
  "registro k a n u t =
     \<lparr>entidad = ''pedido'', entidad_id = k, accion = ''CAMBIAR_ESTADO'',
      antes = a, despues = n, usuario_app = u, fecha_auditoria = t\<rparr>"

section \<open>The example of the specification\<close>

text \<open>
  Product P with stock 5 and price 10.0, and the database after an order of 3 units of P
  has been placed.
\<close>

definition producto_P :: producto where
  "producto_P = \<lparr>nombre = ''P'', categoria = ''Bebidas'', precio = 10, stock = 5, activo = True\<rparr>"

definition pedido_P :: pedido where
  "pedido_P = \<lparr>id_cliente = 7, fecha = 100, total_pedido = 30, estado = Some ''CREADO'',
               metodo_pago = ''EFECTIVO'', creado_por = ''ana@demo''\<rparr>"

definition detalle_P :: detalle where
  "detalle_P = \<lparr>id_producto = 4, nombre_producto = ''P'', cantidad = 3, precio_unit = 10,
                subtotal = 30, id_pedido = 0\<rparr>"

definition db_inicial :: db where
  "db_inicial = \<lparr>productos = [4 \<mapsto> producto_P], pedidos = [], detalle_pedido = [], auditoria = []\<rparr>"

definition db_con_pedido :: db where
  "db_con_pedido = \<lparr>productos = [4 \<mapsto> producto_P\<lparr>stock := 2\<rparr>], pedidos = [pedido_P],
                    detalle_pedido = [detalle_P], auditoria = []\<rparr>"

definition db_enviado :: db where
  "db_enviado = db_con_pedido\<lparr>pedidos := [pedido_P\<lparr>estado := Some ''ENVIADO''\<rparr>]\<rparr>"

definition db_cancelado :: db where
  "db_cancelado =
     \<lparr>productos = [4 \<mapsto> producto_P], pedidos = [pedido_P\<lparr>estado := Some ''CANCELADO''\<rparr>],
      detalle_pedido = [detalle_P],
      auditoria = [registro 0 ''CREADO'' ''CANCELADO'' ''admin@demo'' 200]\<rparr>"






text \<open>
  What the validation loop demands of a pair, and the line it builds for it from the
  product as it is when the order is placed.
\<close>

definition item_ok :: "(oid \<rightharpoonup> producto) \<Rightarrow> oid \<times> int \<Rightarrow> bool" where
  "item_ok ps item =
     (case ps (fst item) of None \<Rightarrow> False | Some pr \<Rightarrow> activo pr \<and> snd item \<le> stock pr)"

definition linea_de :: "(oid \<rightharpoonup> producto) \<Rightarrow> oid \<times> int \<Rightarrow> 'a linea_scheme \<Rightarrow> bool" where
  "linea_de ps item l =
     (case ps (fst item) of
        None \<Rightarrow> False
      | Some pr \<Rightarrow>
          id_producto l = fst item \<and> nombre_producto l = nombre pr \<and> cantidad l = snd item \<and>
          precio_unit l = precio pr \<and> subtotal l = precio pr * of_int (snd item))"

text \<open>
  Every stored order line belongs to a stored order. The empty database satisfies it and
  both routes keep it; it is what makes the id of a new order fresh.
\<close>

definition db_ok :: "db \<Rightarrow> bool" where
  "db_ok d = list_all (\<lambda>dt. id_pedido dt < length (pedidos d)) (detalle_pedido d)"

text \<open>
  The variable \<open>items\<close> of \<open>pedidos_crear\<close>, and the answers that report a
  created order.
\<close>

definition items_de :: "form_pedido \<Rightarrow> (oid \<times> int) list" where
  "items_de f = normalizar_items (zip (f_ids f) (f_cants f))"

fun creado :: "respuesta \<Rightarrow> bool" where
  "creado (PedidoCreado k) = True"
| "creado r = False"

text \<open>
  The form of the example order (3 units of P), a form that lists P in two lines of
  3 units each, and a form whose first pair has quantity 0.
\<close>

definition form_P :: form_pedido where
  "form_P = \<lparr>f_id_cliente = Valido 7, f_ids = [Some 4], f_cants = [Some 3],
             f_metodo_pago = None\<rparr>"

definition form_repetido :: form_pedido where
  "form_repetido = \<lparr>f_id_cliente = Valido 7, f_ids = [Some 4, Some 4],
                    f_cants = [Some 3, Some 3], f_metodo_pago = None\<rparr>"

definition form_cero :: form_pedido where
  "form_cero = \<lparr>f_id_cliente = Valido 7, f_ids = [Some 4, Some 4],
                f_cants = [Some 0, Some 3], f_metodo_pago = None\<rparr>"

text \<open>
  A database with P (active, stock 5) and an inactive product Q, and a form whose first
  pair names Q with quantity 0 and whose second pair orders 3 units of P.
\<close>

definition producto_Q :: producto where
  "producto_Q = \<lparr>nombre = ''Q'', categoria = ''Bebidas'', precio = 4, stock = 9, activo = False\<rparr>"

definition db_dos :: db where
  "db_dos = \<lparr>productos = [4 \<mapsto> producto_P, 5 \<mapsto> producto_Q], pedidos = [],
             detalle_pedido = [], auditoria = []\<rparr>"

definition form_inactivo :: form_pedido where
  "form_inactivo = \<lparr>f_id_cliente = Valido 7, f_ids = [Some 5, Some 4],
                    f_cants = [Some 0, Some 3], f_metodo_pago = None\<rparr>"

definition form_excede :: form_pedido where
  "form_excede = \<lparr>f_id_cliente = Valido 7, f_ids = [Some 4, Some 4],
                  f_cants = [Some 1, Some 6], f_metodo_pago = None\<rparr>"

text \<open>
  A quantity field that is not a positive integer: \<open>int(cant)\<close> raised, or gave a
  number that is not above zero.
\<close>

definition cantidad_invalida :: "int option \<Rightarrow> bool" where
  "cantidad_invalida cant = (case cant of None \<Rightarrow> True | Some q \<Rightarrow> q \<le> 0)"

definition form_sin_validos :: form_pedido where
  "form_sin_validos = \<lparr>f_id_cliente = Valido 7, f_ids = [Some 4, Some 4],
                       f_cants = [Some 0, None], f_metodo_pago = None\<rparr>"







section \<open>Properties\<close>

subsection \<open>Running writes\<close>

lemma ejecutar_Nil [simp]: "ejecutar d [] = d"
  by (simp add: ejecutar_def)

lemma ejecutar_Cons: "ejecutar d (w # ws) = ejecutar (aplicar d w) ws"
  by (simp add: ejecutar_def)

lemma ejecutar_append: "ejecutar d (xs @ ys) = ejecutar (ejecutar d xs) ys"
  by (simp add: ejecutar_def)

lemma ejecutar_set_audit:
  "k < length (pedidos d) \<Longrightarrow>
   ejecutar d [PedidosSetEstado k n, AuditoriaInsertOne a] =
     d\<lparr>pedidos := (pedidos d)[k := (pedidos d ! k)\<lparr>estado := Some n\<rparr>],
       auditoria := auditoria d @ [a]\<rparr>"
  by (simp add: ejecutar_def)

lemma find_pedido_SomeD:
  "find_pedido d k = Some ped \<Longrightarrow> k < length (pedidos d) \<and> pedidos d ! k = ped"
  by (auto simp: find_pedido_def split: if_splits)

text \<open>The restock loop touches the products only, and adds up per product.\<close>

lemma restock_Cons:
  "ejecutar d (restock (dt # dets)) =
     ejecutar (aplicar d (ProductosIncStock (id_producto dt) (cantidad dt))) (restock dets)"
  by (simp add: restock_def ejecutar_Cons)

lemma restock_frame:
  "pedidos (ejecutar d (restock dets)) = pedidos d \<and>
   detalle_pedido (ejecutar d (restock dets)) = detalle_pedido d \<and>
   auditoria (ejecutar d (restock dets)) = auditoria d"
proof (induction dets arbitrary: d)
  case Nil
  show ?case by (simp add: restock_def)
next
  case (Cons dt dets)
  show ?case
    unfolding restock_Cons
    using Cons.IH[of "aplicar d (ProductosIncStock (id_producto dt) (cantidad dt))"]
    by (simp split: option.splits)
qed

lemma restock_productos:
  "productos (ejecutar d (restock dets)) p =
     map_option (sumar_stock (cantidad_de p dets)) (productos d p)"
proof (induction dets arbitrary: d)
  case Nil
  show ?case by (simp add: restock_def cantidad_de_def sumar_stock_def option.map_ident)
next
  case (Cons dt dets)
  show ?case
    unfolding restock_Cons Cons.IH
    by (cases "productos d (id_producto dt)"; cases "productos d p")
       (auto simp: cantidad_de_def sumar_stock_def)
qed

subsection \<open>The transition table\<close>

lemma transiciones_get_tabla:
  "n \<in> set (transiciones_get a) \<longleftrightarrow> (a, n) \<in> tabla_spec"
  by (auto simp: transiciones_get_def transiciones_def tabla_spec_def CREATED_def PAID_def
      SHIPPED_def CANCELLED_def)

lemma transiciones_get_validos:
  "n \<in> set (transiciones_get a) \<Longrightarrow> n \<in> set estados_validos"
  by (auto simp: transiciones_get_def transiciones_def estados_validos_def split: if_splits)

lemma tabla_spec_no_cancelled: "(CANCELLED, n) \<notin> tabla_spec"
  by (auto simp: tabla_spec_def CREATED_def PAID_def SHIPPED_def CANCELLED_def)

lemma tabla_spec_a_cancelled: "(a, CANCELLED) \<in> tabla_spec \<Longrightarrow> a \<noteq> CANCELLED"
  by (auto simp: tabla_spec_def CREATED_def PAID_def SHIPPED_def CANCELLED_def)

lemma upper_strip_canonico:
  "upper (strip ''CREADO'') = ''CREADO''" "upper (strip ''PAGADO'') = ''PAGADO''"
  "upper (strip ''ENVIADO'') = ''ENVIADO''" "upper (strip ''CANCELADO'') = ''CANCELADO''"
  by (simp_all add: upper_def strip_def es_espacio_def upper_char_def minusculas_def
      mayusculas_def)

lemma estado_actual_de_canonico:
  "c \<in> set estados_validos \<Longrightarrow> estado_actual_de (ped\<lparr>estado := Some c\<rparr>) = c"
  by (auto simp: estados_validos_def estado_actual_de_def py_or_def upper_strip_canonico)

subsection \<open>What the status change does, case by case\<close>

lemma ops_stored:
  assumes "find_pedido d k = Some ped"
  shows "cambiar_estado_pedido_ops d u t (Some k) f =
    (if (estado_actual_de ped, nuevo_de f) \<in> tabla_spec then
       (EstadoActualizado (estado_actual_de ped) (nuevo_de f),
          (if nuevo_de f = CANCELLED then restock (find_detalles d k) else [])
           @ [PedidosSetEstado k (nuevo_de f),
              AuditoriaInsertOne (registro k (estado_actual_de ped) (nuevo_de f) u t)])
     else if nuevo_de f \<in> set estados_validos then
       (TransicionRechazada (estado_actual_de ped) (nuevo_de f), [])
     else (EstadoInvalido, []))"
  using assms transiciones_get_validos[of "nuevo_de f" "estado_actual_de ped"]
    tabla_spec_a_cancelled[of "estado_actual_de ped"]
  unfolding cambiar_estado_pedido_ops_def estado_actual_de_def nuevo_de_def registro_def
    Let_def CANCELLED_def
  by (auto simp: transiciones_get_tabla)

lemma ops_not_stored:
  assumes "url_id = None \<or> (\<exists>k. url_id = Some k \<and> find_pedido d k = None)"
  shows "snd (cambiar_estado_pedido_ops d u t url_id f) = [] \<and>
         \<not> aceptada (fst (cambiar_estado_pedido_ops d u t url_id f))"
  using assms by (auto simp: cambiar_estado_pedido_ops_def Let_def)

lemma cambiar_estado_pedido_eq:
  "cambiar_estado_pedido d u t url_id f =
     (fst (cambiar_estado_pedido_ops d u t url_id f),
      ejecutar d (snd (cambiar_estado_pedido_ops d u t url_id f)))"
  by (simp add: cambiar_estado_pedido_def split: prod.splits)

lemma aceptada_efecto:
  assumes ped: "find_pedido d k = Some ped"
      and tab: "(estado_actual_de ped, nuevo_de f) \<in> tabla_spec"
  shows "pedidos (snd (cambiar_estado_pedido d u t (Some k) f)) =
           (pedidos d)[k := ped\<lparr>estado := Some (nuevo_de f)\<rparr>]"
    and "auditoria (snd (cambiar_estado_pedido d u t (Some k) f)) =
           auditoria d @ [registro k (estado_actual_de ped) (nuevo_de f) u t]"
    and "detalle_pedido (snd (cambiar_estado_pedido d u t (Some k) f)) = detalle_pedido d"
    and "productos (snd (cambiar_estado_pedido d u t (Some k) f)) p =
           (if nuevo_de f = CANCELLED
            then map_option (sumar_stock (cantidad_de p (find_detalles d k))) (productos d p)
            else productos d p)"
proof -
  let ?dets = "find_detalles d k"
  let ?d1 = "ejecutar d (restock ?dets)"
  have k: "k < length (pedidos d)" "pedidos d ! k = ped"
    using find_pedido_SomeD[OF ped] by simp_all
  have k1: "k < length (pedidos ?d1)" using k restock_frame[of d ?dets] by simp
  have fin: "snd (cambiar_estado_pedido d u t (Some k) f) =
      (let d1 = (if nuevo_de f = CANCELLED then ?d1 else d) in
       d1\<lparr>pedidos := (pedidos d1)[k := (pedidos d1 ! k)\<lparr>estado := Some (nuevo_de f)\<rparr>],
          auditoria := auditoria d1 @ [registro k (estado_actual_de ped) (nuevo_de f) u t]\<rparr>)"
    using tab k k1
    by (simp add: cambiar_estado_pedido_eq ops_stored[OF ped] ejecutar_append
        ejecutar_set_audit Let_def)
  show "pedidos (snd (cambiar_estado_pedido d u t (Some k) f)) =
           (pedidos d)[k := ped\<lparr>estado := Some (nuevo_de f)\<rparr>]"
    unfolding fin using k restock_frame[of d ?dets] by (simp add: Let_def)
  show "auditoria (snd (cambiar_estado_pedido d u t (Some k) f)) =
           auditoria d @ [registro k (estado_actual_de ped) (nuevo_de f) u t]"
    unfolding fin using restock_frame[of d ?dets] by (simp add: Let_def)
  show "detalle_pedido (snd (cambiar_estado_pedido d u t (Some k) f)) = detalle_pedido d"
    unfolding fin using restock_frame[of d ?dets] by (simp add: Let_def)
  show "productos (snd (cambiar_estado_pedido d u t (Some k) f)) p =
           (if nuevo_de f = CANCELLED
            then map_option (sumar_stock (cantidad_de p (find_detalles d k))) (productos d p)
            else productos d p)"
    unfolding fin by (simp add: Let_def restock_productos)
qed

lemma rechazada_efecto:
  assumes "\<not> aceptada (fst (cambiar_estado_pedido d u t url_id f))"
  shows "snd (cambiar_estado_pedido_ops d u t url_id f) = [] \<and>
         snd (cambiar_estado_pedido d u t url_id f) = d"
proof (cases "\<exists>k ped. url_id = Some k \<and> find_pedido d k = Some ped")
  case True
  then obtain k ped where kp: "url_id = Some k" "find_pedido d k = Some ped" by blast
  show ?thesis using assms unfolding kp(1)
    by (simp add: cambiar_estado_pedido_eq ops_stored[OF kp(2)] split: if_splits)
next
  case False
  then have "url_id = None \<or> (\<exists>k. url_id = Some k \<and> find_pedido d k = None)"
    by (cases url_id) auto
  from ops_not_stored[OF this, of u t f] show ?thesis
    by (simp add: cambiar_estado_pedido_eq)
qed

lemma aceptada_stored:
  assumes "aceptada (fst (cambiar_estado_pedido d u t url_id f))"
  shows "\<exists>k ped. url_id = Some k \<and> find_pedido d k = Some ped \<and>
           (estado_actual_de ped, nuevo_de f) \<in> tabla_spec"
proof (cases "\<exists>k ped. url_id = Some k \<and> find_pedido d k = Some ped")
  case True
  then obtain k ped where kp: "url_id = Some k" "find_pedido d k = Some ped" by blast
  show ?thesis using assms unfolding kp(1)
    by (simp add: cambiar_estado_pedido_eq ops_stored[OF kp(2)] kp(2) split: if_splits)
next
  case False
  then have "url_id = None \<or> (\<exists>k. url_id = Some k \<and> find_pedido d k = None)"
    by (cases url_id) auto
  from ops_not_stored[OF this, of u t f] assms show ?thesis
    by (simp add: cambiar_estado_pedido_eq)
qed

lemma cancelado_rechaza:
  assumes "find_pedido d k = Some ped" and "estado_actual_de ped = CANCELLED"
  shows "\<not> aceptada (fst (cambiar_estado_pedido d u t (Some k) f)) \<and>
         snd (cambiar_estado_pedido_ops d u t (Some k) f) = [] \<and>
         snd (cambiar_estado_pedido d u t (Some k) f) = d"
  by (simp add: cambiar_estado_pedido_eq ops_stored[OF assms(1)] assms(2)
      tabla_spec_no_cancelled)

lemma cancelado_repetido:
  assumes "find_pedido d k = Some ped" and "estado_actual_de ped = CANCELLED"
  shows "cambiar_estado_repetido d k rs = d"
proof (induction rs)
  case Nil
  show ?case by simp
next
  case (Cons r rs)
  obtain u t f where r: "r = (u, t, f)" by (cases r) auto
  show ?case unfolding r using cancelado_rechaza[OF assms, of u t f] Cons.IH by simp
qed

subsection \<open>Evaluating the example\<close>

lemmas ejemplo_defs = db_con_pedido_def db_enviado_def db_cancelado_def pedido_P_def
  detalle_P_def producto_P_def db_inicial_def registro_def

lemmas texto_defs = upper_def strip_def es_espacio_def upper_char_def minusculas_def
  mayusculas_def py_or_def

lemmas estado_defs = cambiar_estado_pedido_def cambiar_estado_pedido_ops_def find_pedido_def
  find_detalles_def transiciones_get_def transiciones_def estados_validos_def restock_def
  ejecutar_def estado_actual_de_def nuevo_de_def Let_def

lemma ejemplo_enviado_a_creado:
  "cambiar_estado_pedido db_enviado ''admin@demo'' 200 (Some 0) (Some ''CREADO'')
     = (TransicionRechazada ''ENVIADO'' ''CREADO'', db_enviado)"
  by (simp add: ejemplo_defs texto_defs estado_defs)

lemma ejemplo_cancelar:
  "cambiar_estado_pedido db_con_pedido ''admin@demo'' 200 (Some 0) (Some '' cancelado'')
     = (EstadoActualizado ''CREADO'' ''CANCELADO'', db_cancelado)"
  by (simp add: ejemplo_defs texto_defs estado_defs)

lemma ejemplo_find:
  "find_pedido db_con_pedido 0 = Some pedido_P"
  "find_pedido db_enviado 0 = Some (pedido_P\<lparr>estado := Some ''ENVIADO''\<rparr>)"
  "find_pedido db_cancelado 0 = Some (pedido_P\<lparr>estado := Some ''CANCELADO''\<rparr>)"
  by (simp_all add: ejemplo_defs find_pedido_def)

lemma ejemplo_nuevo:
  "nuevo_de (Some '' cancelado'') = CANCELLED"
  "nuevo_de (Some ''CREADO'') = CREATED"
  "nuevo_de (Some ''pagado'') = PAID"
  by (simp_all add: nuevo_de_def texto_defs CANCELLED_def CREATED_def PAID_def)

subsection \<open>Claims about the status change\<close>





text \<open>
  C4. CANCELLED is terminal. For a stored order whose status is CANCELLED, every further
  status-change request, a repeated CANCELLED included, is rejected, issues no write (so
  no further restock) and leaves the database as it is, and so does any run of such
  requests. An accepted cancellation puts the order in CANCELLED, so after it any run of
  further requests on that order changes nothing: the stock restored by the cancellation
  is restored once.
\<close>

theorem cancelado_terminal:
  assumes "find_pedido d k = Some ped"
  shows "(estado_actual_de ped = CANCELLED \<longrightarrow>
            (\<forall>u t f. \<not> aceptada (fst (cambiar_estado_pedido d u t (Some k) f)) \<and>
                     snd (cambiar_estado_pedido_ops d u t (Some k) f) = [] \<and>
                     snd (cambiar_estado_pedido d u t (Some k) f) = d) \<and>
            (\<forall>rs. cambiar_estado_repetido d k rs = d)) \<and>
         (nuevo_de f = CANCELLED \<and> aceptada (fst (cambiar_estado_pedido d u t (Some k) f)) \<longrightarrow>
            find_pedido (snd (cambiar_estado_pedido d u t (Some k) f)) k
              = Some (ped\<lparr>estado := Some CANCELLED\<rparr>) \<and>
            (\<forall>rs. cambiar_estado_repetido (snd (cambiar_estado_pedido d u t (Some k) f)) k rs
                   = snd (cambiar_estado_pedido d u t (Some k) f)))"
proof (intro conjI impI)
  assume c: "estado_actual_de ped = CANCELLED"
  show "\<forall>u t f. \<not> aceptada (fst (cambiar_estado_pedido d u t (Some k) f)) \<and>
                     snd (cambiar_estado_pedido_ops d u t (Some k) f) = [] \<and>
                     snd (cambiar_estado_pedido d u t (Some k) f) = d"
    using cancelado_rechaza[OF assms c] by blast
  show "\<forall>rs. cambiar_estado_repetido d k rs = d"
    using cancelado_repetido[OF assms c] by blast
next
  assume a: "nuevo_de f = CANCELLED \<and> aceptada (fst (cambiar_estado_pedido d u t (Some k) f))"
  let ?d' = "snd (cambiar_estado_pedido d u t (Some k) f)"
  from aceptada_stored[of d u t "Some k" f] a assms
  have tab: "(estado_actual_de ped, nuevo_de f) \<in> tabla_spec" by auto
  have k: "k < length (pedidos d)" using find_pedido_SomeD[OF assms] by simp
  show fp: "find_pedido ?d' k = Some (ped\<lparr>estado := Some CANCELLED\<rparr>)"
    using aceptada_efecto(1)[OF assms tab, of u t] a k by (simp add: find_pedido_def)
  have "estado_actual_de (ped\<lparr>estado := Some CANCELLED\<rparr>) = CANCELLED"
    by (rule estado_actual_de_canonico) (simp add: estados_validos_def CANCELLED_def)
  from cancelado_repetido[OF fp this]
  show "\<forall>rs. cambiar_estado_repetido ?d' k rs = ?d'" by blast
qed

theorem cancelado_terminal_witness:
  "find_pedido db_con_pedido 0 = Some pedido_P \<and>
   cambiar_estado_pedido db_con_pedido ''admin@demo'' 200 (Some 0) (Some '' cancelado'')
     = (EstadoActualizado ''CREADO'' ''CANCELADO'', db_cancelado) \<and>
   cambiar_estado_repetido db_cancelado 0
     [(''admin@demo'', 201, Some ''CANCELADO''), (''admin@demo'', 202, Some ''PAGADO'')]
     = db_cancelado \<and>
   map_option stock (productos db_cancelado 4) = Some 5"
proof -
  have a: "nuevo_de (Some '' cancelado'') = CANCELLED \<and>
      aceptada (fst (cambiar_estado_pedido db_con_pedido ''admin@demo'' 200 (Some 0)
        (Some '' cancelado'')))"
    by (simp add: ejemplo_cancelar ejemplo_nuevo(1))
  have s: "snd (cambiar_estado_pedido db_con_pedido ''admin@demo'' 200 (Some 0)
        (Some '' cancelado'')) = db_cancelado"
    by (simp add: ejemplo_cancelar)
  have "\<forall>rs. cambiar_estado_repetido db_cancelado 0 rs = db_cancelado"
    using cancelado_terminal[OF ejemplo_find(1), of "Some '' cancelado''" "''admin@demo''" 200] a
    unfolding s by blast
  then have rep: "cambiar_estado_repetido db_cancelado 0
     [(''admin@demo'', 201, Some ''CANCELADO''), (''admin@demo'', 202, Some ''PAGADO'')]
     = db_cancelado"
    by (rule spec)
  have st: "map_option stock (productos db_cancelado 4) = Some 5"
    by (simp add: db_cancelado_def producto_P_def)
  show ?thesis
    using ejemplo_find(1) ejemplo_cancelar rep st by blast
qed

text \<open>
  C5. Every accepted status change appends exactly one audit record, and that record
  holds the order's prior status (as the route normalised it) under \<open>antes\<close>, the new
  status that was written to the order under \<open>despues\<close>, the acting user and the time.
  A rejected request leaves the audit log as it was.
\<close>

theorem auditoria_por_transicion:
  "(aceptada (fst (cambiar_estado_pedido d u t url_id f)) \<longrightarrow>
      (\<exists>k ped. url_id = Some k \<and> find_pedido d k = Some ped \<and>
         find_pedido (snd (cambiar_estado_pedido d u t url_id f)) k
           = Some (ped\<lparr>estado := Some (nuevo_de f)\<rparr>) \<and>
         auditoria (snd (cambiar_estado_pedido d u t url_id f)) =
           auditoria d @
             [\<lparr>entidad = ''pedido'', entidad_id = k, accion = ''CAMBIAR_ESTADO'',
               antes = estado_actual_de ped, despues = nuevo_de f,
               usuario_app = u, fecha_auditoria = t\<rparr>])) \<and>
   (\<not> aceptada (fst (cambiar_estado_pedido d u t url_id f)) \<longrightarrow>
      auditoria (snd (cambiar_estado_pedido d u t url_id f)) = auditoria d)"
proof (intro conjI impI)
  assume a: "aceptada (fst (cambiar_estado_pedido d u t url_id f))"
  from aceptada_stored[OF a] obtain k ped where
    kp: "url_id = Some k" "find_pedido d k = Some ped"
    and tab: "(estado_actual_de ped, nuevo_de f) \<in> tabla_spec" by blast
  have k: "k < length (pedidos d)" using find_pedido_SomeD[OF kp(2)] by simp
  have "find_pedido (snd (cambiar_estado_pedido d u t (Some k) f)) k
           = Some (ped\<lparr>estado := Some (nuevo_de f)\<rparr>)"
    using aceptada_efecto(1)[OF kp(2) tab, of u t] k by (simp add: find_pedido_def)
  moreover have "auditoria (snd (cambiar_estado_pedido d u t (Some k) f)) =
           auditoria d @ [registro k (estado_actual_de ped) (nuevo_de f) u t]"
    by (rule aceptada_efecto(2)[OF kp(2) tab])
  ultimately show "\<exists>k ped. url_id = Some k \<and> find_pedido d k = Some ped \<and>
         find_pedido (snd (cambiar_estado_pedido d u t url_id f)) k
           = Some (ped\<lparr>estado := Some (nuevo_de f)\<rparr>) \<and>
         auditoria (snd (cambiar_estado_pedido d u t url_id f)) =
           auditoria d @
             [\<lparr>entidad = ''pedido'', entidad_id = k, accion = ''CAMBIAR_ESTADO'',
               antes = estado_actual_de ped, despues = nuevo_de f,
               usuario_app = u, fecha_auditoria = t\<rparr>]"
    using kp by (simp add: registro_def)
next
  assume "\<not> aceptada (fst (cambiar_estado_pedido d u t url_id f))"
  from rechazada_efecto[OF this]
  show "auditoria (snd (cambiar_estado_pedido d u t url_id f)) = auditoria d" by simp
qed

theorem auditoria_por_transicion_witness:
  "aceptada (fst (cambiar_estado_pedido db_con_pedido ''admin@demo'' 200 (Some 0) (Some '' cancelado''))) \<and>
   auditoria db_con_pedido = [] \<and>
   auditoria (snd (cambiar_estado_pedido db_con_pedido ''admin@demo'' 200 (Some 0) (Some '' cancelado''))) =
     [\<lparr>entidad = ''pedido'', entidad_id = 0, accion = ''CAMBIAR_ESTADO'',
       antes = ''CREADO'', despues = ''CANCELADO'',
       usuario_app = ''admin@demo'', fecha_auditoria = 200\<rparr>] \<and>
   \<not> aceptada (fst (cambiar_estado_pedido db_enviado ''admin@demo'' 200 (Some 0) (Some ''CREADO''))) \<and>
   auditoria (snd (cambiar_estado_pedido db_enviado ''admin@demo'' 200 (Some 0) (Some ''CREADO''))) =
     auditoria db_enviado"
proof -
  have a: "aceptada (fst (cambiar_estado_pedido db_con_pedido ''admin@demo'' 200 (Some 0)
      (Some '' cancelado'')))"
    by (simp add: ejemplo_cancelar)
  have r: "\<not> aceptada (fst (cambiar_estado_pedido db_enviado ''admin@demo'' 200 (Some 0)
      (Some ''CREADO'')))"
    by (simp add: ejemplo_enviado_a_creado)
  have e: "estado_actual_de pedido_P = ''CREADO''"
    by (simp add: estado_actual_de_def pedido_P_def texto_defs)
  have au: "auditoria db_con_pedido = []" by (simp add: db_con_pedido_def)
  from auditoria_por_transicion[of db_con_pedido "''admin@demo''" 200 "Some 0" "Some '' cancelado''"] a
  have 1: "auditoria (snd (cambiar_estado_pedido db_con_pedido ''admin@demo'' 200 (Some 0) (Some '' cancelado''))) =
     [\<lparr>entidad = ''pedido'', entidad_id = 0, accion = ''CAMBIAR_ESTADO'',
       antes = ''CREADO'', despues = ''CANCELADO'',
       usuario_app = ''admin@demo'', fecha_auditoria = 200\<rparr>]"
    using e au ejemplo_find(1) ejemplo_nuevo(1) by (auto simp: CANCELLED_def)
  from auditoria_por_transicion[of db_enviado "''admin@demo''" 200 "Some 0" "Some ''CREADO''"] r
  have 2: "auditoria (snd (cambiar_estado_pedido db_enviado ''admin@demo'' 200 (Some 0) (Some ''CREADO''))) =
     auditoria db_enviado" by blast
  show ?thesis using a r 1 2 au by simp
qed

subsection \<open>Normalisation of the statuses\<close>











subsection \<open>The loops of order creation\<close>

lemma validar_Inr:
  "validar ps items (tot, dets) = Inr (tot', dets') \<Longrightarrow>
     \<exists>nuevas. dets' = dets @ nuevas \<and> list_all2 (linea_de ps) items nuevas \<and>
       list_all (item_ok ps) items \<and> tot' = tot + sum_list (map subtotal nuevas)"
proof (induction items arbitrary: tot dets)
  case Nil
  then show ?case by simp
next
  case (Cons item items)
  obtain pid q where item: "item = (pid, q)" by (cases item) auto
  from Cons.prems obtain pr where pr: "ps pid = Some pr" "activo pr" "q \<le> stock pr"
    and rec: "validar ps items (tot + precio pr * of_int q,
        dets @ [\<lparr>id_producto = pid, nombre_producto = nombre pr, cantidad = q,
                 precio_unit = precio pr, subtotal = precio pr * of_int q\<rparr>]) = Inr (tot', dets')"
    unfolding item by (auto simp: Let_def split: option.splits if_splits)
  from Cons.IH[OF rec] obtain nuevas where n: "dets' = (dets @ [\<lparr>id_producto = pid,
      nombre_producto = nombre pr, cantidad = q, precio_unit = precio pr,
      subtotal = precio pr * of_int q\<rparr>]) @ nuevas"
    "list_all2 (linea_de ps) items nuevas" "list_all (item_ok ps) items"
    "tot' = tot + precio pr * of_int q + sum_list (map subtotal nuevas)" by blast
  let ?l = "\<lparr>id_producto = pid, nombre_producto = nombre pr, cantidad = q,
      precio_unit = precio pr, subtotal = precio pr * of_int q\<rparr>"
  have "dets' = dets @ (?l # nuevas)" using n(1) by simp
  moreover have "list_all2 (linea_de ps) (item # items) (?l # nuevas)"
    using n(2) pr by (simp add: item linea_de_def)
  moreover have "list_all (item_ok ps) (item # items)"
    using n(3) pr by (simp add: item item_ok_def)
  moreover have "tot' = tot + sum_list (map subtotal (?l # nuevas))"
    using n(4) by simp
  ultimately show ?case by blast
qed

lemma validar_Inl:
  "(\<exists>r. validar ps items acc = Inl r) \<longleftrightarrow> \<not> list_all (item_ok ps) items"
proof (induction items arbitrary: acc)
  case Nil
  show ?case by simp
next
  case (Cons item items)
  obtain pid q where item: "item = (pid, q)" by (cases item) auto
  obtain tot dets where acc: "acc = (tot, dets)" by (cases acc) auto
  show ?case
    unfolding item acc using Cons.IH
    by (auto simp: item_ok_def Let_def split: option.splits)
qed

lemma insertar_detalles_frame:
  "pedidos (ejecutar d (insertar_detalles k ls)) = pedidos d \<and>
   auditoria (ejecutar d (insertar_detalles k ls)) = auditoria d \<and>
   detalle_pedido (ejecutar d (insertar_detalles k ls)) =
     detalle_pedido d @ map (con_id_pedido k) ls"
proof (induction ls arbitrary: d)
  case Nil
  show ?case by simp
next
  case (Cons l ls)
  let ?d1 = "aplicar (aplicar d (DetalleInsertOne (con_id_pedido k l)))
      (ProductosIncStock (id_producto l) (- cantidad l))"
  have step: "ejecutar d (insertar_detalles k (l # ls)) = ejecutar ?d1 (insertar_detalles k ls)"
    by (simp add: ejecutar_Cons)
  have d1: "pedidos ?d1 = pedidos d" "auditoria ?d1 = auditoria d"
    "detalle_pedido ?d1 = detalle_pedido d @ [con_id_pedido k l]"
    by (simp_all split: option.splits)
  show ?case unfolding step using Cons.IH[of ?d1] d1 by simp
qed

lemma con_id_pedido_campos [simp]:
  "id_producto (con_id_pedido k l) = id_producto l"
  "nombre_producto (con_id_pedido k l) = nombre_producto l"
  "cantidad (con_id_pedido k l) = cantidad l"
  "precio_unit (con_id_pedido k l) = precio_unit l"
  "subtotal (con_id_pedido k l) = subtotal l"
  "id_pedido (con_id_pedido k l) = k"
  by (simp_all add: con_id_pedido_def)

lemma insertar_detalles_productos:
  "productos (ejecutar d (insertar_detalles k ls)) p =
     map_option (sumar_stock (- cantidad_de p (map (con_id_pedido k) ls))) (productos d p)"
proof (induction ls arbitrary: d)
  case Nil
  show ?case by (simp add: cantidad_de_def sumar_stock_def option.map_ident)
next
  case (Cons l ls)
  let ?d1 = "aplicar (aplicar d (DetalleInsertOne (con_id_pedido k l)))
      (ProductosIncStock (id_producto l) (- cantidad l))"
  have step: "ejecutar d (insertar_detalles k (l # ls)) = ejecutar ?d1 (insertar_detalles k ls)"
    by (simp add: ejecutar_Cons)
  show ?case
    unfolding step Cons.IH
    by (cases "productos d (id_producto l)"; cases "productos d p")
       (auto simp: cantidad_de_def sumar_stock_def)
qed

lemma validar_Inl_respuesta:
  "validar ps items acc = Inl r \<Longrightarrow>
     r = ProductoNoEncontrado \<or> (\<exists>nom disp. r = StockInsuficiente nom disp)"
proof (induction items arbitrary: acc)
  case Nil
  then show ?case by simp
next
  case (Cons item items)
  obtain pid q where item: "item = (pid, q)" by (cases item) auto
  obtain tot dets where acc: "acc = (tot, dets)" by (cases acc) auto
  from Cons.prems Cons.IH show ?case
    unfolding item acc by (auto simp: Let_def split: option.splits if_splits)
qed

lemma pedidos_crear_eq:
  "pedidos_crear d u t f =
     (fst (pedidos_crear_ops d u t f), ejecutar d (snd (pedidos_crear_ops d u t f)))"
  by (simp add: pedidos_crear_def split: prod.splits)

lemma pedidos_crear_ops_creado:
  assumes "fst (pedidos_crear_ops d u t f) = PedidoCreado k"
  shows "\<exists>cli tot dets.
           f_id_cliente f = Valido cli \<and> f_ids f \<noteq> [] \<and> f_cants f \<noteq> [] \<and> items_de f \<noteq> [] \<and>
           validar (productos d) (items_de f) (0, []) = Inr (tot, dets) \<and>
           k = length (pedidos d) \<and>
           snd (pedidos_crear_ops d u t f) =
             PedidosInsertOne
               \<lparr>id_cliente = cli, fecha = t, total_pedido = tot, estado = Some ''CREADO'',
                metodo_pago = (case f_metodo_pago f of None \<Rightarrow> ''EFECTIVO'' | Some m \<Rightarrow> m),
                creado_por = u\<rparr>
             # insertar_detalles k dets"
  using assms
  by (auto simp: pedidos_crear_ops_def items_de_def Let_def
      split: if_splits sum.splits campo_id.splits prod.splits
      dest: validar_Inl_respuesta)

lemma pedidos_crear_ops_rechazado:
  assumes "\<not> creado (fst (pedidos_crear_ops d u t f))"
  shows "snd (pedidos_crear_ops d u t f) = []"
  using assms
  by (auto simp: pedidos_crear_ops_def Let_def
      split: if_splits sum.splits campo_id.splits prod.splits)

lemma pedidos_crear_rechazado:
  assumes "\<not> creado (fst (pedidos_crear d u t f))"
  shows "snd (pedidos_crear d u t f) = d"
  using assms pedidos_crear_ops_rechazado[of d u t f] by (simp add: pedidos_crear_eq)

lemma pedidos_crear_efecto:
  assumes "pedidos_crear d u t f = (PedidoCreado k, d')"
  shows "\<exists>cli tot dets.
           f_id_cliente f = Valido cli \<and> items_de f \<noteq> [] \<and>
           list_all (item_ok (productos d)) (items_de f) \<and>
           list_all2 (linea_de (productos d)) (items_de f) dets \<and>
           tot = sum_list (map subtotal dets) \<and>
           k = length (pedidos d) \<and>
           pedidos d' = pedidos d @
             [\<lparr>id_cliente = cli, fecha = t, total_pedido = tot, estado = Some ''CREADO'',
               metodo_pago = (case f_metodo_pago f of None \<Rightarrow> ''EFECTIVO'' | Some m \<Rightarrow> m),
               creado_por = u\<rparr>] \<and>
           detalle_pedido d' = detalle_pedido d @ map (con_id_pedido k) dets \<and>
           auditoria d' = auditoria d \<and>
           (\<forall>p. productos d' p =
              map_option (sumar_stock (- cantidad_de p (map (con_id_pedido k) dets)))
                (productos d p))"
proof -
  from assms have r: "fst (pedidos_crear_ops d u t f) = PedidoCreado k"
    and d': "d' = ejecutar d (snd (pedidos_crear_ops d u t f))"
    by (simp_all add: pedidos_crear_eq)
  from pedidos_crear_ops_creado[OF r] obtain cli tot dets where
    c: "f_id_cliente f = Valido cli" "items_de f \<noteq> []"
      "validar (productos d) (items_de f) (0, []) = Inr (tot, dets)" "k = length (pedidos d)"
    and ws: "snd (pedidos_crear_ops d u t f) =
             PedidosInsertOne
               \<lparr>id_cliente = cli, fecha = t, total_pedido = tot, estado = Some ''CREADO'',
                metodo_pago = (case f_metodo_pago f of None \<Rightarrow> ''EFECTIVO'' | Some m \<Rightarrow> m),
                creado_por = u\<rparr>
             # insertar_detalles k dets" by blast
  from validar_Inr[OF c(3)] have v: "list_all2 (linea_de (productos d)) (items_de f) dets"
    "list_all (item_ok (productos d)) (items_de f)" "tot = sum_list (map subtotal dets)"
    by auto
  let ?ped = "\<lparr>id_cliente = cli, fecha = t, total_pedido = tot, estado = Some ''CREADO'',
      metodo_pago = (case f_metodo_pago f of None \<Rightarrow> ''EFECTIVO'' | Some m \<Rightarrow> m),
      creado_por = u\<rparr>"
  let ?d1 = "aplicar d (PedidosInsertOne ?ped)"
  have run: "d' = ejecutar ?d1 (insertar_detalles k dets)"
    unfolding d' ws by (simp add: ejecutar_Cons)
  have d1: "pedidos ?d1 = pedidos d @ [?ped]" "detalle_pedido ?d1 = detalle_pedido d"
    "auditoria ?d1 = auditoria d" "productos ?d1 = productos d"
    by simp_all
  have "pedidos d' = pedidos d @ [?ped]"
    and "detalle_pedido d' = detalle_pedido d @ map (con_id_pedido k) dets"
    and "auditoria d' = auditoria d"
    unfolding run using insertar_detalles_frame[of ?d1 k dets] d1 by simp_all
  moreover have "\<forall>p. productos d' p =
      map_option (sumar_stock (- cantidad_de p (map (con_id_pedido k) dets))) (productos d p)"
    unfolding run insertar_detalles_productos d1 by simp
  ultimately show ?thesis using c v by blast
qed




lemmas crear_defs = pedidos_crear_def pedidos_crear_ops_def ejecutar_def con_id_pedido_def
  Let_def form_P_def form_repetido_def form_cero_def

lemma ejemplo_crear:
  "pedidos_crear db_inicial ''ana@demo'' 100 form_P = (PedidoCreado 0, db_con_pedido)"
  by (simp add: crear_defs ejemplo_defs)


subsection \<open>The routes keep every stored line attached to a stored order\<close>

lemma db_ok_vacia:
  "db_ok \<lparr>productos = ps, pedidos = [], detalle_pedido = [], auditoria = []\<rparr>"
  by (simp add: db_ok_def)

lemma db_ok_pedidos_crear:
  assumes "db_ok d"
  shows "db_ok (snd (pedidos_crear d u t f))"
proof (cases "creado (fst (pedidos_crear d u t f))")
  case False
  from pedidos_crear_rechazado[OF False] assms show ?thesis by simp
next
  case True
  then obtain k where k: "fst (pedidos_crear d u t f) = PedidoCreado k"
    by (cases "fst (pedidos_crear d u t f)") auto
  then have "pedidos_crear d u t f = (PedidoCreado k, snd (pedidos_crear d u t f))"
    by (metis prod.collapse)
  from pedidos_crear_efecto[OF this] obtain ped dets where
    e: "k = length (pedidos d)"
       "pedidos (snd (pedidos_crear d u t f)) = pedidos d @ [ped]"
       "detalle_pedido (snd (pedidos_crear d u t f)) =
          detalle_pedido d @ map (con_id_pedido k) dets"
    by blast
  show ?thesis
    using assms unfolding db_ok_def e(2) e(3) e(1)
    by (auto simp: list_all_iff)
qed

lemma db_ok_cambiar_estado_pedido:
  assumes "db_ok d"
  shows "db_ok (snd (cambiar_estado_pedido d u t url_id f))"
proof (cases "aceptada (fst (cambiar_estado_pedido d u t url_id f))")
  case False
  from rechazada_efecto[OF False] assms show ?thesis by simp
next
  case True
  from aceptada_stored[OF True] obtain k ped where
    kp: "url_id = Some k" "find_pedido d k = Some ped"
    and tab: "(estado_actual_de ped, nuevo_de f) \<in> tabla_spec" by blast
  show ?thesis
    using assms
    unfolding db_ok_def kp(1) aceptada_efecto(1)[OF kp(2) tab] aceptada_efecto(3)[OF kp(2) tab]
    by simp
qed

subsection \<open>Claims about order creation\<close>



text \<open>
  C8. Stock can go negative. The validation loop compares every line with the stock read
  from the database, which no earlier line of the same order has lowered yet; the
  insertion loop then lowers the stock once per line. With P at stock 5, an order listing
  P twice, 3 units each, passes validation and leaves P at stock -1.
\<close>

theorem stock_negativo_producto_repetido:
  "map_option stock (productos db_inicial 4) = Some 5 \<and>
   normalizar_items (zip (f_ids form_repetido) (f_cants form_repetido)) = [(4, 3), (4, 3)] \<and>
   fst (pedidos_crear db_inicial ''ana@demo'' 100 form_repetido) = PedidoCreado 0 \<and>
   map_option stock
     (productos (snd (pedidos_crear db_inicial ''ana@demo'' 100 form_repetido)) 4) = Some (- 1)"
  by (simp add: crear_defs ejemplo_defs)

subsection \<open>Rejected and skipped pairs\<close>

lemma normalizar_items_mem:
  "(k, q) \<in> set (normalizar_items xs) \<longleftrightarrow> (Some k, Some q) \<in> set xs \<and> 0 < q"
proof (induction xs)
  case Nil
  show ?case by simp
next
  case (Cons x xs)
  obtain pid cant where x: "x = (pid, cant)" by (cases x) auto
  show ?case unfolding x using Cons.IH
    by (cases cant; cases pid) auto
qed

lemma normalizar_items_append:
  "normalizar_items (xs @ ys) = normalizar_items xs @ normalizar_items ys"
proof (induction xs)
  case Nil
  show ?case by simp
next
  case (Cons x xs)
  obtain pid cant where x: "x = (pid, cant)" by (cases x) auto
  show ?case unfolding x using Cons.IH
    by (cases cant; cases pid) auto
qed

lemma pedidos_crear_item_malo:
  assumes "item \<in> set (items_de f)" and "\<not> item_ok (productos d) item"
  shows "\<not> creado (fst (pedidos_crear_ops d u t f))"
proof -
  have "\<not> list_all (item_ok (productos d)) (items_de f)"
    using assms by (auto simp: list_all_iff)
  then obtain r where r: "validar (productos d) (items_de f) (0, []) = Inl r"
    using validar_Inl[of "productos d" "items_de f" "(0, [])"] by blast
  from validar_Inl_respuesta[OF r] have "\<not> creado r" by auto
  then show ?thesis
    using r by (auto simp: pedidos_crear_ops_def items_de_def Let_def)
qed

text \<open>
  C6, as amended. When some pair that survives normalisation (a well-formed product id
  with a quantity that is a positive integer) names a product that does not exist or is
  inactive, or asks for more than that product's current stock, the whole order is
  rejected: the route issues no write, so no order and no line is inserted and every
  stock is as before.
\<close>

theorem pedidos_crear_rechaza_todo:
  assumes "(Some pid, Some q) \<in> set (zip (f_ids f) (f_cants f))" and "0 < q"
      and "case productos d pid of None \<Rightarrow> True | Some pr \<Rightarrow> \<not> activo pr \<or> stock pr < q"
  shows "\<not> creado (fst (pedidos_crear d u t f)) \<and>
         snd (pedidos_crear_ops d u t f) = [] \<and>
         snd (pedidos_crear d u t f) = d"
proof -
  have m: "(pid, q) \<in> set (items_de f)"
    using assms(1,2) by (simp add: items_de_def normalizar_items_mem)
  have b: "\<not> item_ok (productos d) (pid, q)"
    using assms(3) by (auto simp: item_ok_def split: option.splits)
  from pedidos_crear_item_malo[OF m b, of u t]
  have r: "\<not> creado (fst (pedidos_crear_ops d u t f))" .
  from pedidos_crear_ops_rechazado[OF r] r show ?thesis
    by (simp add: pedidos_crear_eq)
qed

theorem pedidos_crear_rechaza_todo_witness:
  "(Some 4, Some 6) \<in> set (zip (f_ids form_excede) (f_cants form_excede)) \<and>
   map_option stock (productos db_dos 4) = Some 5 \<and>
   fst (pedidos_crear db_dos ''ana@demo'' 100 form_excede) = StockInsuficiente ''P'' 5 \<and>
   snd (pedidos_crear db_dos ''ana@demo'' 100 form_excede) = db_dos"
proof -
  have z: "(Some 4, Some 6) \<in> set (zip (f_ids form_excede) (f_cants form_excede))"
    by (simp add: form_excede_def)
  have q: "(0::int) < 6" by simp
  have c: "case productos db_dos 4 of None \<Rightarrow> True | Some pr \<Rightarrow> \<not> activo pr \<or> stock pr < 6"
    by (simp add: db_dos_def producto_P_def)
  from pedidos_crear_rechaza_todo[OF z q c, of "''ana@demo''" 100]
  have s: "snd (pedidos_crear db_dos ''ana@demo'' 100 form_excede) = db_dos" by blast
  have st: "map_option stock (productos db_dos 4) = Some 5"
    by (simp add: db_dos_def producto_P_def)
  have r: "fst (pedidos_crear db_dos ''ana@demo'' 100 form_excede) = StockInsuficiente ''P'' 5"
    by (simp add: pedidos_crear_def pedidos_crear_ops_def Let_def form_excede_def db_dos_def
        producto_P_def producto_Q_def ejecutar_def)
  show ?thesis using z st r s by blast
qed

text \<open>
  Without the restriction to pairs that survive normalisation the statement fails: a form
  whose first pair names the inactive product Q with quantity 0 and whose second pair
  orders 3 units of P creates an order and lowers the stock of P.
\<close>

theorem pedidos_crear_rechaza_todo_counterexample:
  "productos db_dos 5 = Some producto_Q \<and>
   \<not> activo producto_Q \<and>
   zip (f_ids form_inactivo) (f_cants form_inactivo) = [(Some 5, Some 0), (Some 4, Some 3)] \<and>
   fst (pedidos_crear db_dos ''ana@demo'' 100 form_inactivo) = PedidoCreado 0 \<and>
   length (pedidos (snd (pedidos_crear db_dos ''ana@demo'' 100 form_inactivo))) = 1 \<and>
   length (detalle_pedido (snd (pedidos_crear db_dos ''ana@demo'' 100 form_inactivo))) = 1 \<and>
   map_option stock (productos db_dos 4) = Some 5 \<and>
   map_option stock
     (productos (snd (pedidos_crear db_dos ''ana@demo'' 100 form_inactivo)) 4) = Some 2"
  by (simp add: pedidos_crear_def pedidos_crear_ops_def Let_def form_inactivo_def db_dos_def
      producto_P_def producto_Q_def ejecutar_def con_id_pedido_def)

lemma normalizar_items_invalidos:
  "list_all (\<lambda>x. cantidad_invalida (snd x)) xs \<Longrightarrow> normalizar_items xs = []"
proof (induction xs)
  case Nil
  show ?case by simp
next
  case (Cons x xs)
  obtain pid cant where x: "x = (pid, cant)" by (cases x) auto
  from Cons show ?case unfolding x
    by (cases cant) (auto simp: cantidad_invalida_def)
qed

lemma normalizar_items_quitar:
  assumes "cantidad_invalida cant"
  shows "normalizar_items (xs @ (pid, cant) # ys) = normalizar_items (xs @ ys)"
  using assms
  by (cases cant) (auto simp: normalizar_items_append cantidad_invalida_def)

lemma pedidos_crear_ops_cong:
  assumes "f_id_cliente f = f_id_cliente g" and "f_metodo_pago f = f_metodo_pago g"
      and "(f_ids f = [] \<or> f_cants f = []) = (f_ids g = [] \<or> f_cants g = [])"
      and "items_de f = items_de g"
  shows "pedidos_crear_ops d u t f = pedidos_crear_ops d u t g"
  by (simp only: pedidos_crear_ops_def assms(1) assms(2) assms(3)
      assms(4)[unfolded items_de_def])

text \<open>
  C7, as amended. A pair whose quantity is not a positive integer is skipped, it does not
  abort the order: as long as other pairs remain in the form, the request is handled
  exactly as the same request without that pair, so an order is created from the
  remaining pairs when they pass validation. The order is rejected, with no write and
  the database unchanged, when no pair of the form has a positive integer quantity.
\<close>

theorem pedidos_crear_descarta_invalidos:
  assumes "cantidad_invalida cant" and "length ids1 = length cants1"
      and "ids1 @ ids2 \<noteq> []" and "cants1 @ cants2 \<noteq> []"
  shows "pedidos_crear d u t (f\<lparr>f_ids := ids1 @ pid # ids2, f_cants := cants1 @ cant # cants2\<rparr>)
           = pedidos_crear d u t (f\<lparr>f_ids := ids1 @ ids2, f_cants := cants1 @ cants2\<rparr>) \<and>
         (list_all (\<lambda>x. cantidad_invalida (snd x)) (zip (f_ids f) (f_cants f)) \<longrightarrow>
            \<not> creado (fst (pedidos_crear d u t f)) \<and>
            snd (pedidos_crear_ops d u t f) = [] \<and>
            snd (pedidos_crear d u t f) = d)"
proof (intro conjI impI)
  have z: "zip (ids1 @ pid # ids2) (cants1 @ cant # cants2) =
      zip ids1 cants1 @ (pid, cant) # zip ids2 cants2"
    using assms(2) by simp
  have z': "zip (ids1 @ ids2) (cants1 @ cants2) = zip ids1 cants1 @ zip ids2 cants2"
    using assms(2) by simp
  have n: "normalizar_items (zip (ids1 @ pid # ids2) (cants1 @ cant # cants2)) =
      normalizar_items (zip (ids1 @ ids2) (cants1 @ cants2))"
    unfolding z z' by (rule normalizar_items_quitar[OF assms(1)])
  have "pedidos_crear_ops d u t (f\<lparr>f_ids := ids1 @ pid # ids2, f_cants := cants1 @ cant # cants2\<rparr>)
      = pedidos_crear_ops d u t (f\<lparr>f_ids := ids1 @ ids2, f_cants := cants1 @ cants2\<rparr>)"
  proof (rule pedidos_crear_ops_cong)
    show "items_de (f\<lparr>f_ids := ids1 @ pid # ids2, f_cants := cants1 @ cant # cants2\<rparr>) =
        items_de (f\<lparr>f_ids := ids1 @ ids2, f_cants := cants1 @ cants2\<rparr>)"
      using n unfolding items_de_def by simp
  qed (use assms(3,4) in simp_all)
  then show "pedidos_crear d u t (f\<lparr>f_ids := ids1 @ pid # ids2, f_cants := cants1 @ cant # cants2\<rparr>)
           = pedidos_crear d u t (f\<lparr>f_ids := ids1 @ ids2, f_cants := cants1 @ cants2\<rparr>)"
    by (simp add: pedidos_crear_def)
next
  assume "list_all (\<lambda>x. cantidad_invalida (snd x)) (zip (f_ids f) (f_cants f))"
  from normalizar_items_invalidos[OF this]
  have r: "\<not> creado (fst (pedidos_crear_ops d u t f))"
    by (simp add: pedidos_crear_ops_def)
  from pedidos_crear_ops_rechazado[OF r] r
  show "\<not> creado (fst (pedidos_crear d u t f))"
    and "snd (pedidos_crear_ops d u t f) = []"
    and "snd (pedidos_crear d u t f) = d"
    by (simp_all add: pedidos_crear_eq)
qed

theorem pedidos_crear_descarta_invalidos_witness:
  "cantidad_invalida (Some 0) \<and>
   pedidos_crear db_inicial ''ana@demo'' 100 form_cero
     = pedidos_crear db_inicial ''ana@demo'' 100 form_P \<and>
   pedidos_crear db_inicial ''ana@demo'' 100 form_P = (PedidoCreado 0, db_con_pedido) \<and>
   list_all (\<lambda>x. cantidad_invalida (snd x))
     (zip (f_ids form_sin_validos) (f_cants form_sin_validos)) \<and>
   pedidos_crear db_inicial ''ana@demo'' 100 form_sin_validos = (SinItemsValidos, db_inicial)"
proof -
  have i: "cantidad_invalida (Some 0)" by (simp add: cantidad_invalida_def)
  have l: "length ([] :: oid option list) = length ([] :: int option list)" by simp
  have n1: "[] @ [Some (4::nat)] \<noteq> []" and n2: "[] @ [Some (3::int)] \<noteq> []" by simp_all
  have f1: "form_P\<lparr>f_ids := [] @ Some 4 # [Some 4], f_cants := [] @ Some 0 # [Some 3]\<rparr> = form_cero"
    by (simp add: form_P_def form_cero_def)
  have f2: "form_P\<lparr>f_ids := [] @ [Some 4], f_cants := [] @ [Some 3]\<rparr> = form_P"
    by (simp add: form_P_def)
  note th = pedidos_crear_descarta_invalidos[OF i l n1 n2, where d = db_inicial
      and u = "''ana@demo''" and t = 100 and f = form_P and pid = "Some 4"]
  from th have e: "pedidos_crear db_inicial ''ana@demo'' 100 form_cero
     = pedidos_crear db_inicial ''ana@demo'' 100 form_P"
    unfolding f1 f2 by blast
  have a: "list_all (\<lambda>x. cantidad_invalida (snd x))
     (zip (f_ids form_sin_validos) (f_cants form_sin_validos))"
    by (simp add: form_sin_validos_def cantidad_invalida_def)
  have s: "pedidos_crear db_inicial ''ana@demo'' 100 form_sin_validos
      = (SinItemsValidos, db_inicial)"
    by (simp add: pedidos_crear_def pedidos_crear_ops_def Let_def form_sin_validos_def
        ejecutar_def)
  show ?thesis using i e ejemplo_crear a s by blast
qed

text \<open>
  A form with a pair of quantity 0 followed by a pair of quantity 3 is not aborted: the
  order is created from the second pair, and an order and a line are persisted.
\<close>

theorem pedidos_crear_descarta_invalidos_counterexample:
  "zip (f_ids form_cero) (f_cants form_cero) = [(Some 4, Some 0), (Some 4, Some 3)] \<and>
   \<not> (0::int) < 0 \<and>
   pedidos_crear db_inicial ''ana@demo'' 100 form_cero = (PedidoCreado 0, db_con_pedido) \<and>
   pedidos db_inicial = [] \<and> pedidos db_con_pedido = [pedido_P] \<and>
   detalle_pedido db_con_pedido = [detalle_P] \<and>
   db_con_pedido \<noteq> db_inicial"
  by (simp add: crear_defs ejemplo_defs)

subsection \<open>Product edits\<close>






end
